theory Spec2Isabelle
  imports Main "HOL-Library.Sublist"
begin

section \<open>Strings\<close>

text \<open>
  The provider works on JavaScript strings. A string is modelled as a \<open>char list\<close>
  whose elements are code units below 256 (the Latin-1 range), which covers every
  literal of the source: the tables are ASCII apart from the no-break space U+00A0
  in some descriptions.
\<close>

abbreviation nbsp :: char where
  "nbsp \<equiv> CHR 0xA0"

text \<open>\<open>String.prototype.trim\<close> strips white space and line terminators from both
  ends; below 256 these are TAB, LF, VT, FF, CR, SP and U+00A0.\<close>

definition isWhiteSpace :: "char \<Rightarrow> bool" where
  "isWhiteSpace c = (of_char c \<in> {9, 10, 11, 12, 13, 32, 160 :: nat})"

definition trim :: "string \<Rightarrow> string" where
  "trim s = rev (dropWhile isWhiteSpace (rev (dropWhile isWhiteSpace s)))"

text \<open>\<open>String.prototype.toLowerCase\<close>: below 256 the letters with a lower-case
  partner are A-Z, U+00C0-U+00D6 and U+00D8-U+00DE, each 32 below its partner.\<close>

definition toLowerChar :: "char \<Rightarrow> char" where
  "toLowerChar c = (let n = (of_char c :: nat) in
     if (65 \<le> n \<and> n \<le> 90) \<or> (192 \<le> n \<and> n \<le> 214) \<or> (216 \<le> n \<and> n \<le> 222)
     then char_of (n + 32) else c)"

definition toLowerCase :: "string \<Rightarrow> string" where
  "toLowerCase s = map toLowerChar s"

text \<open>\<open>s.startsWith(p)\<close>.\<close>

definition startsWith :: "string \<Rightarrow> string \<Rightarrow> bool" where
  "startsWith s p = prefix p s"

text \<open>\<open>s.indexOf(p)\<close>: the first position at which \<open>p\<close> occurs in \<open>s\<close>, or \<open>-1\<close>.\<close>

primrec indexOf :: "string \<Rightarrow> string \<Rightarrow> int" where
  "indexOf [] p = (if p = [] then 0 else - 1)"
| "indexOf (c # cs) p =
     (if prefix p (c # cs) then 0
      else (let i = indexOf cs p in if i < 0 then - 1 else i + 1))"

text \<open>\<open>s.slice(n)\<close> for a start index \<open>n \<ge> 0\<close> (the only use in the source).\<close>

definition slice :: "string \<Rightarrow> nat \<Rightarrow> string" where
  "slice s n = drop n s"

text \<open>Truthiness of an optional string, and \<open>a || b\<close> on strings: \<open>undefined\<close>
  and the empty string are falsy.\<close>

definition truthy :: "string option \<Rightarrow> bool" where
  "truthy v = (case v of None \<Rightarrow> False | Some s \<Rightarrow> s \<noteq> [])"

definition orElse :: "string option \<Rightarrow> string \<Rightarrow> string" where
  "orElse v d = (case v of None \<Rightarrow> d | Some s \<Rightarrow> if s = [] then d else s)"

section \<open>Data model\<close>

text \<open>The members of \<open>vscode.CompletionItemKind\<close> that the provider uses.\<close>

datatype CompletionItemKind = Keyword | Field | Value | Reference

text \<open>\<open>interface HttpCompletionItem\<close>; the optional field \<open>text\<close> is \<open>text'\<close> here.\<close>

record HttpCompletionItem =
  name :: string
  description :: string
  text' :: "string option"
  kind :: CompletionItemKind

text \<open>The fields of \<open>vscode.CompletionItem\<close> that \<open>provideCompletionItems\<close> sets:
  the constructor arguments \<open>label\<close> and \<open>kind\<close> (here \<open>itemKind\<close>), then
  \<open>detail\<close>, \<open>documentation\<close> and \<open>insertText\<close>.\<close>

record CompletionItem =
  label :: string
  itemKind :: CompletionItemKind
  detail :: string
  documentation :: string
  insertText :: string

text \<open>Modelled from the spec: the document model of the \<open>httpyac\<close> library is not
  in the sources. A symbol has a line range, a kind tag drawn from request line,
  request header and other, and optional children; a region has its symbol, an
  optional request of one protocol family, and meta data holding its optional
  symbolic name; a file is a list of regions.\<close>

datatype HttpSymbolKind = requestLine | requestHeader | otherSymbolKind

datatype HttpSymbol =
  HttpSymbol (startLine: int) (endLine: int) (symbolKind: HttpSymbolKind)
    (children: "HttpSymbol list option")

datatype Request =
  HttpRequest | MQTTRequest | EventSourceRequest | GrpcRequest | WebsocketRequest

record HttpRegion =
  symbol :: HttpSymbol
  request :: "Request option"
  metaData :: "string \<rightharpoonup> string"

record HttpFile =
  httpRegions :: "HttpRegion list"

text \<open>Modelled from the spec: the type guards \<open>httpyac.utils.isHttpRequest\<close>,
  \<open>isMQTTRequest\<close>, \<open>isEventSourceRequest\<close> and \<open>isGrpcRequest\<close> tell the request
  variant.\<close>

definition isHttpRequest :: "Request \<Rightarrow> bool" where
  "isHttpRequest r = (r = HttpRequest)"

definition isMQTTRequest :: "Request \<Rightarrow> bool" where
  "isMQTTRequest r = (r = MQTTRequest)"

definition isEventSourceRequest :: "Request \<Rightarrow> bool" where
  "isEventSourceRequest r = (r = EventSourceRequest)"

definition isGrpcRequest :: "Request \<Rightarrow> bool" where
  "isGrpcRequest r = (r = GrpcRequest)"

text \<open>An entry of \<open>httpyac.parser.knownMetaData\<close>: \<open>name\<close>, \<open>description\<close> and the
  optional \<open>completions\<close>. The table itself belongs to the library and is a
  parameter of \<open>getMetaData\<close>.\<close>

record MetaData =
  metaName :: string
  metaDescription :: string
  completions :: "string list option"

section \<open>Candidate tables\<close>

text \<open>The array literals of the source, each under a name of its own.\<close>

definition requestMethodItems :: "HttpCompletionItem list" where
  \<open>requestMethodItems = [
    \<lparr>name = ''GET'',
     description = ''The GET method requests a representation of the specified resource. Requests using GET should only retrieve data.'',
     text' = None, kind = Keyword\<rparr>,
    \<lparr>name = ''HEAD'',
     description = ''The GET method requests a representation of the specified resource. Requests using GET should only retrieve data.'',
     text' = None, kind = Keyword\<rparr>,
    \<lparr>name = ''POST'',
     description = ''The POST method is used to submit an entity to the specified resource, often causing a change in state or side effects on the server.'',
     text' = None, kind = Keyword\<rparr>,
    \<lparr>name = ''PUT'',
     description = ''The PUT method replaces all current representations of the target resource with the request payload.'',
     text' = None, kind = Keyword\<rparr>,
    \<lparr>name = ''DELETE'',
     description = ''The DELETE method deletes the specified resource.'',
     text' = None, kind = Keyword\<rparr>,
    \<lparr>name = ''CONNECT'',
     description = ''The CONNECT method establishes a tunnel to the server identified by the target resource.'',
     text' = None, kind = Keyword\<rparr>,
    \<lparr>name = ''OPTIONS'',
     description = ''The OPTIONS method is used to describe the communication options for the target resource.'',
     text' = None, kind = Keyword\<rparr>,
    \<lparr>name = ''TRACE'',
     description = ''The TRACE method performs a message loop-back test along the path to the target resource.'',
     text' = None, kind = Keyword\<rparr>,
    \<lparr>name = ''PATCH'',
     description = ''The PATCH method is used to apply partial modifications to a resource.'',
     text' = None, kind = Keyword\<rparr>,
    \<lparr>name = ''MQTT'',
     description = ''MQTT request'',
     text' = None, kind = Keyword\<rparr>,
    \<lparr>name = ''WSS'',
     description = ''WSS request'',
     text' = None, kind = Keyword\<rparr>,
    \<lparr>name = ''SSE'',
     description = ''Server Sent Event'',
     text' = None, kind = Keyword\<rparr>,
    \<lparr>name = ''GRPC'',
     description = ''GRPC request'',
     text' = None, kind = Keyword\<rparr>
  ]\<close>

definition httpHeaderItems :: "HttpCompletionItem list" where
  \<open>httpHeaderItems = [
    \<lparr>name = ''A-IM'',
     description = ''Acceptable instance-manipulations for the request.'',
     text' = None, kind = Field\<rparr>,
    \<lparr>name = ''Accept'',
     description = (''Media type(s)'' @ nbsp # ''that is/are acceptable for the response. See'' @ nbsp # ''Content negotiation.''),
     text' = None, kind = Field\<rparr>,
    \<lparr>name = ''Accept-Charset'',
     description = ''Character sets that are acceptable.'',
     text' = None, kind = Field\<rparr>,
    \<lparr>name = ''Accept-Datetime'',
     description = ''Acceptable version in time.'',
     text' = None, kind = Field\<rparr>,
    \<lparr>name = ''Accept-Encoding'',
     description = (''List of acceptable encodings. See'' @ nbsp # ''HTTP compression.''),
     text' = None, kind = Field\<rparr>,
    \<lparr>name = ''Accept-Language'',
     description = (''List of acceptable human languages for response. See'' @ nbsp # ''Content negotiation.''),
     text' = None, kind = Field\<rparr>,
    \<lparr>name = ''Access-Control-Request-Method'',
     description = (''Initiates a request for'' @ nbsp # ''cross-origin resource sharing'' @ nbsp # ''with'' @ nbsp # ''Origin'' @ nbsp # ''(below).''),
     text' = None, kind = Field\<rparr>,
    \<lparr>name = ''Access-Control-Request-Headers'',
     description = (''Initiates a request for'' @ nbsp # ''cross-origin resource sharing'' @ nbsp # ''with'' @ nbsp # ''Origin'' @ nbsp # ''(below).''),
     text' = None, kind = Field\<rparr>,
    \<lparr>name = ''Authorization'',
     description = (''Authentication credentials for'' @ nbsp # ''HTTP authentication.''),
     text' = None, kind = Field\<rparr>,
    \<lparr>name = ''Cache-Control'',
     description = (''Used to specify directives that'' @ nbsp # ''must'' @ nbsp # ''be obeyed by all caching mechanisms along the request-response chain.''),
     text' = None, kind = Field\<rparr>,
    \<lparr>name = ''Connection'',
     description = ''Control options for the current connection and list of hop-by-hop request fields. Must not be used with HTTP/2.'',
     text' = None, kind = Field\<rparr>,
    \<lparr>name = ''Content-Encoding'',
     description = (''The type of encoding used on the data. See'' @ nbsp # ''HTTP compression.''),
     text' = None, kind = Field\<rparr>,
    \<lparr>name = ''Content-Length'',
     description = (''The length of the request body in'' @ nbsp # ''octets'' @ nbsp # ''(8-bit bytes).''),
     text' = None, kind = Field\<rparr>,
    \<lparr>name = ''Content-MD5'',
     description = (''A'' @ nbsp # ''Base64-encoded binary'' @ nbsp # ''MD5'' @ nbsp # ''sum of the content of the request body.''),
     text' = None, kind = Field\<rparr>,
    \<lparr>name = ''Content-Type'',
     description = (''The'' @ nbsp # ''Media type'' @ nbsp # ''of the body of the request (used with POST and PUT requests).''),
     text' = None, kind = Field\<rparr>,
    \<lparr>name = ''Cookie'',
     description = (''An'' @ nbsp # ''HTTP cookie'' @ nbsp # ''previously sent by the server with'' @ nbsp # ''Set-Cookie'' @ nbsp # ''(below).''),
     text' = None, kind = Field\<rparr>,
    \<lparr>name = ''Date'',
     description = (''The date and time at which the message was originated (in "HTTP-date" format as defined by'' @ nbsp # ''RFC 7231 Date/Time Formats).''),
     text' = None, kind = Field\<rparr>,
    \<lparr>name = ''Expect'',
     description = ''Indicates that particular server behaviors are required by the client.'',
     text' = None, kind = Field\<rparr>,
    \<lparr>name = ''Forwarded'',
     description = ''Disclose original information of a client connecting to a web server through an HTTP proxy.'',
     text' = None, kind = Field\<rparr>,
    \<lparr>name = ''From'',
     description = ''The email address of the user making the request.'',
     text' = None, kind = Field\<rparr>,
    \<lparr>name = ''Host'',
     description = (''The domain name of the server (for'' @ nbsp # ''virtual hosting), and the'' @ nbsp # ''TCP port'' @ nbsp # ''number on which the server is listening. The'' @ nbsp # ''port'' @ nbsp # ''number may be omitted if the port is the standard port for the service requested. Mandatory since HTTP/1.1.'' @ nbsp # ''If the request is generated directly in HTTP/2, it should not be used.''),
     text' = None, kind = Field\<rparr>,
    \<lparr>name = ''HTTP2-Settings'',
     description = (''A request that upgrades from HTTP/1.1 to HTTP/2 MUST include exactly one'' @ nbsp # ''HTTP2-Setting'' @ nbsp # ''header field. The'' @ nbsp # ''HTTP2-Settings'' @ nbsp # ''header field is a connection-specific header field that includes parameters that govern the HTTP/2 connection, provided in anticipation of the server accepting the request to upgrade.''),
     text' = None, kind = Field\<rparr>,
    \<lparr>name = ''If-Match'',
     description = ''Only perform the action if the client supplied entity matches the same entity on the server. This is mainly for methods like PUT to only update a resource if it has not been modified since the user last updated it.'',
     text' = None, kind = Field\<rparr>,
    \<lparr>name = ''If-Modified-Since'',
     description = (''Allows a'' @ nbsp # ''304 Not Modified'' @ nbsp # ''to be returned if content is unchanged.''),
     text' = None, kind = Field\<rparr>,
    \<lparr>name = ''If-None-Match'',
     description = (''Allows a'' @ nbsp # ''304 Not Modified'' @ nbsp # ''to be returned if content is unchanged, see'' @ nbsp # ''HTTP ETag.''),
     text' = None, kind = Field\<rparr>,
    \<lparr>name = ''If-Range'',
     description = ''If the entity is unchanged, send me the part(s) that I am missing; otherwise, send me the entire new entity.'',
     text' = None, kind = Field\<rparr>,
    \<lparr>name = ''If-Unmodified-Since'',
     description = ''Only send the response if the entity has not been modified since a specific time.'',
     text' = None, kind = Field\<rparr>,
    \<lparr>name = ''Max-Forwards'',
     description = ''Limit the number of times the message can be forwarded through proxies or gateways.'',
     text' = None, kind = Field\<rparr>,
    \<lparr>name = ''Origin'',
     description = (''Initiates a request for'' @ nbsp # ''cross-origin resource sharing'' @ nbsp # ''(asks server for'' @ nbsp # ''Access-Control-*'' @ nbsp # ''response fields).''),
     text' = None, kind = Field\<rparr>,
    \<lparr>name = ''Pragma'',
     description = ''Implementation-specific fields that may have various effects anywhere along the request-response chain.'',
     text' = None, kind = Field\<rparr>,
    \<lparr>name = ''Proxy-Authorization'',
     description = ''Authorization credentials for connecting to a proxy.'',
     text' = None, kind = Field\<rparr>,
    \<lparr>name = ''Range'',
     description = (''Request only part of an entity. Bytes are numbered from 0. See'' @ nbsp # ''Byte serving.''),
     text' = None, kind = Field\<rparr>,
    \<lparr>name = ''Referer'',
     description = ''This is the address of the previous web page from which a link to the currently requested page was followed. (The word "referrer" has been misspelled in the RFC as well as in most implementations to the point that it has become standard usage and is considered correct terminology)'',
     text' = None, kind = Field\<rparr>,
    \<lparr>name = ''TE'',
     description = (''The transfer encodings the user agent is willing to accept: the same values as for the response header field Transfer-Encoding can be used, plus the "trailers" value (related to the "chunked" transfer method) to notify the server it expects to receive additional fields in the trailer after the last, zero-sized, chunk. Only'' @ nbsp # ''trailers'' @ nbsp # ''is supported in HTTP/2.''),
     text' = None, kind = Field\<rparr>,
    \<lparr>name = ''Trailer'',
     description = (''The Trailer general field value indicates that the given set of header fields is present in the trailer of a message encoded with'' @ nbsp # ''chunked transfer coding.''),
     text' = None, kind = Field\<rparr>,
    \<lparr>name = ''Transfer-Encoding'',
     description = (''The form of encoding used to safely transfer the entity to the user.'' @ nbsp # ''Currently defined methods'' @ nbsp # ''are:'' @ nbsp # ''chunked, compress, deflate, gzip, identity. Must not be used with HTTP/2''),
     text' = None, kind = Field\<rparr>,
    \<lparr>name = ''User-Agent'',
     description = (''The'' @ nbsp # ''user agent string'' @ nbsp # ''of the user agent.''),
     text' = None, kind = Field\<rparr>,
    \<lparr>name = ''Upgrade'',
     description = ''Ask the server to upgrade to another protocol. Must not be used in HTTP/2.'',
     text' = None, kind = Field\<rparr>,
    \<lparr>name = ''Via'',
     description = ''Informs the server of proxies through which the request was sent.'',
     text' = None, kind = Field\<rparr>,
    \<lparr>name = ''Warning'',
     description = ''A general warning about possible problems with the entity body.'',
     text' = None, kind = Field\<rparr>,
    \<lparr>name = ''Upgrade-Insecure-Requests'',
     description = (''Tells a server which (presumably in the middle of a HTTP -> HTTPS migration) hosts mixed content that the client would prefer redirection to HTTPS and can handle'' @ nbsp # ''Content-Security-Policy: upgrade-insecure-requests Must not be used with HTTP/2''),
     text' = None, kind = Field\<rparr>,
    \<lparr>name = ''X-Requested-With'',
     description = (''Mainly used to identify'' @ nbsp # ''Ajax'' @ nbsp # ''requests (most'' @ nbsp # ''JavaScript frameworks'' @ nbsp # ''send this field with value of'' @ nbsp # ''XMLHttpRequest); also identifies Android apps using WebView''),
     text' = None, kind = Field\<rparr>,
    \<lparr>name = ''DNT'',
     description = (''Requests a web application to disable their tracking of a user. This is Mozilla`s version of the X-Do-Not-Track header field (since'' @ nbsp # ''Firefox 4.0'' @ nbsp # ''Beta 11).'' @ nbsp # ''Safari'' @ nbsp # ''and'' @ nbsp # ''IE9'' @ nbsp # ''also have support for this field.'' @ nbsp # ''On March 7, 2011, a draft proposal was submitted to IETF.'' @ nbsp # ''The'' @ nbsp # ''W3C'' @ nbsp # ''Tracking Protection Working Group is producing a specification.''),
     text' = None, kind = Field\<rparr>,
    \<lparr>name = ''X-Forwarded-For'',
     description = (''A'' @ nbsp # ''de facto'' @ nbsp # ''standard'' @ nbsp # ''for identifying the originating IP address of a client connecting to a web server through an HTTP proxy or load balancer. Superseded by'' @ nbsp # ''Forwarded'' @ nbsp # ''header.''),
     text' = None, kind = Field\<rparr>,
    \<lparr>name = ''X-Forwarded-Host'',
     description = (''A'' @ nbsp # ''de facto'' @ nbsp # ''standard'' @ nbsp # ''for identifying the original host requested by the client in the'' @ nbsp # ''Host'' @ nbsp # ''HTTP request header, since the host name and/or port of the reverse proxy (load balancer) may differ from the origin server handling the request. Superseded by'' @ nbsp # ''Forwarded'' @ nbsp # ''header.''),
     text' = None, kind = Field\<rparr>,
    \<lparr>name = ''X-Forwarded-Proto'',
     description = (''A'' @ nbsp # ''de facto'' @ nbsp # ''standard'' @ nbsp # ''for identifying the originating protocol of an HTTP request, since a reverse proxy (or a load balancer) may communicate with a web server using HTTP even if the request to the reverse proxy is HTTPS. An alternative form of the header (X-ProxyUser-Ip) is used by Google clients talking to Google servers. Superseded by'' @ nbsp # ''Forwarded'' @ nbsp # ''header.''),
     text' = None, kind = Field\<rparr>,
    \<lparr>name = ''Front-End-Https'',
     description = ''Non-standard header field used by Microsoft applications and load-balancers'',
     text' = None, kind = Field\<rparr>,
    \<lparr>name = ''X-Http-Method-Override'',
     description = ''Requests a web application to override the method specified in the request (typically POST) with the method given in the header field (typically PUT or DELETE). This can be used when a user agent or firewall prevents PUT or DELETE methods from being sent directly (note that this is either a bug in the software component, which ought to be fixed, or an intentional configuration, in which case bypassing it may be the wrong thing to do).'',
     text' = None, kind = Field\<rparr>,
    \<lparr>name = ''X-ATT-DeviceId'',
     description = ''Allows easier parsing of the MakeModel/Firmware that is usually found in the User-Agent String of AT&T Devices'',
     text' = None, kind = Field\<rparr>,
    \<lparr>name = ''X-Wap-Profile'',
     description = ''Links to an XML file on the Internet with a full description and details about the device currently connecting. In the example to the right is an XML file for an AT&T Samsung Galaxy S2.'',
     text' = None, kind = Field\<rparr>,
    \<lparr>name = ''Proxy-Connection'',
     description = ''Implemented as a misunderstanding of the HTTP specifications. Common because of mistakes in implementations of early HTTP versions. Has exactly the same functionality as standard Connection field. Must not be used with HTTP/2.'',
     text' = None, kind = Field\<rparr>,
    \<lparr>name = ''X-UIDH'',
     description = (''Server-side'' @ nbsp # ''deep packet insertion'' @ nbsp # ''of a unique ID identifying customers of'' @ nbsp # ''Verizon Wireless; also known as "perma-cookie" or "supercookie"''),
     text' = None, kind = Field\<rparr>,
    \<lparr>name = ''X-Csrf-Token'',
     description = (''Used to prevent'' @ nbsp # ''cross-site request forgery. Alternative header names are:'' @ nbsp # ''X-CSRFToken'' @ nbsp # ''and'' @ nbsp # ''X-XSRF-TOKEN''),
     text' = None, kind = Field\<rparr>,
    \<lparr>name = ''X-Request-ID'',
     description = ''Correlates HTTP requests between a client and server.'',
     text' = None, kind = Field\<rparr>,
    \<lparr>name = ''X-Correlation-ID'',
     description = ''Correlates HTTP requests between a client and server.'',
     text' = None, kind = Field\<rparr>,
    \<lparr>name = ''Save-Data'',
     description = ''The Save-Data client hint request header available in Chrome, Opera, and Yandex browsers lets developers deliver lighter, faster applications to users who opt-in to data saving mode in their browser.'',
     text' = None, kind = Field\<rparr>
  ]\<close>

definition mqttHeaderItems :: "HttpCompletionItem list" where
  \<open>mqttHeaderItems = [
    \<lparr>name = ''username'',
     description = ''the username required by your broker'',
     text' = None, kind = Field\<rparr>,
    \<lparr>name = ''password'',
     description = ''the password required by your broker'',
     text' = None, kind = Field\<rparr>,
    \<lparr>name = ''clean'',
     description = ''true, set to false to receive QoS 1 and 2 messages while offline'',
     text' = None, kind = Field\<rparr>,
    \<lparr>name = ''keepalive'',
     description = ''10 seconds, set to 0 to disable'',
     text' = None, kind = Field\<rparr>,
    \<lparr>name = ''QoS'',
     description = ''the QoS used for subscribe or publish'',
     text' = None, kind = Field\<rparr>,
    \<lparr>name = ''retain'',
     description = ''the retain flat used for publish'',
     text' = None, kind = Field\<rparr>,
    \<lparr>name = ''subscribe'',
     description = ''topics to subscribe to'',
     text' = None, kind = Field\<rparr>,
    \<lparr>name = ''publish'',
     description = ''topics to publish to'',
     text' = None, kind = Field\<rparr>,
    \<lparr>name = ''topic'',
     description = ''topic to subscribe and publish to'',
     text' = None, kind = Field\<rparr>
  ]\<close>

definition eventSourceHeaderItems :: "HttpCompletionItem list" where
  \<open>eventSourceHeaderItems = [
    \<lparr>name = ''Event'',
     description = ''Server Sent Events to add listener'',
     text' = None, kind = Field\<rparr>
  ]\<close>

definition grpcHeaderItems :: "HttpCompletionItem list" where
  \<open>grpcHeaderItems = [
    \<lparr>name = ''ChannelCredentials'',
     description = ''Channel credentials, which are attached to a Channel, such as SSL credentials.'',
     text' = None, kind = Field\<rparr>
  ]\<close>

definition authorizationItems :: "HttpCompletionItem list" where
  \<open>authorizationItems = [
    \<lparr>name = ''Basic'',
     description = ''Basic Authentication'',
     text' = None, kind = Value\<rparr>,
    \<lparr>name = ''Digest'',
     description = ''Digest Authentication'',
     text' = None, kind = Value\<rparr>,
    \<lparr>name = ''AWS'',
     description = ''AWS Signnature v4'',
     text' = None, kind = Value\<rparr>,
    \<lparr>name = ''OAuth2'',
     description = ''OAuth2'',
     text' = None, kind = Value\<rparr>,
    \<lparr>name = ''OpenId'',
     description = ''OpenId'',
     text' = None, kind = Value\<rparr>,
    \<lparr>name = ''Bearer'',
     description = ''Bearer Authentication'',
     text' = None, kind = Value\<rparr>
  ]\<close>

section \<open>The completion provider\<close>

definition getRequstMethodCompletionItems :: "string \<Rightarrow> HttpCompletionItem list" where
  "getRequstMethodCompletionItems textLine =
     filter (\<lambda>obj. length textLine = 0 \<or> startsWith (toLowerCase (name obj)) textLine)
       requestMethodItems"

text \<open>In \<open>getRequestHeaders\<close> the test \<open>if (result)\<close> is on an array, which is
  always truthy, so the filter is always reached.\<close>

definition getRequestHeaders ::
  "string \<Rightarrow> bool \<Rightarrow> HttpRegion option \<Rightarrow> HttpCompletionItem list" where
  "getRequestHeaders textLine isInRequestLine httpRegion =
     (case (if isInRequestLine then Option.bind httpRegion request else None) of
        Some req \<Rightarrow>
          (let result = [];
               result =
                 (if isHttpRequest req then result @ httpHeaderItems
                  else if isMQTTRequest req then result @ mqttHeaderItems
                  else if isEventSourceRequest req then result @ eventSourceHeaderItems
                  else if isGrpcRequest req then result @ grpcHeaderItems
                  else result)
           in filter (\<lambda>obj. length textLine = 0 \<or>
                  startsWith (toLowerCase (name obj)) (toLowerCase (trim textLine))) result)
      | None \<Rightarrow> [])"

text \<open>\<open>types\<close> is the extension to content-type object of the \<open>mime-types\<close>
  package; \<open>Object.entries(types)\<close> is a list of pairs of key and value.\<close>

definition getMimetypes ::
  "(string \<times> string) list \<Rightarrow> string \<Rightarrow> bool \<Rightarrow> HttpCompletionItem list" where
  "getMimetypes types line isInRequestLine =
     (if isInRequestLine \<and> indexOf (toLowerCase line) ''content-type'' \<ge> 0 then
        (let result = map (\<lambda>(key, value).
                \<lparr>name = value, description = key, text' = None, kind = Value\<rparr>) types
         in result @ [\<lparr>name = ''application/x-www-form-urlencoded'',
                        description = ''application/x-www-form-urlencoded'',
                        text' = None, kind = Value\<rparr>])
      else [])"

definition getAuthorization :: "string \<Rightarrow> bool \<Rightarrow> HttpCompletionItem list" where
  "getAuthorization line isInRequestLine =
     (if isInRequestLine \<and> indexOf (toLowerCase line) ''authorization'' \<ge> 0
      then authorizationItems else [])"

text \<open>The two loops of \<open>getMetaData\<close>, each pushing onto \<open>result\<close>: the inner one
  over the completions of one directive, the outer one over the known directives.
  \<open>line\<close> is the typed text after the \<open>#\<close>.\<close>

primrec completionsLoop ::
  "string \<Rightarrow> MetaData \<Rightarrow> string list \<Rightarrow> HttpCompletionItem list \<Rightarrow> HttpCompletionItem list" where
  "completionsLoop line obj [] result = result"
| "completionsLoop line obj (completion # rest) result =
     completionsLoop line obj rest
       (result @ [\<lparr>name = ''@'' @ metaName obj @ '' '' @ completion,
                    description = metaDescription obj,
                    text' = Some (slice (''@'' @ metaName obj @ '' '' @ completion) (length line)),
                    kind = Field\<rparr>])"

primrec knownMetaDataLoop ::
  "string \<Rightarrow> MetaData list \<Rightarrow> HttpCompletionItem list \<Rightarrow> HttpCompletionItem list" where
  "knownMetaDataLoop line [] result = result"
| "knownMetaDataLoop line (obj # rest) result =
     (let item = \<lparr>name = ''@'' @ metaName obj, description = metaDescription obj,
                  text' = Some (''@'' @ metaName obj), kind = Field\<rparr>
      in knownMetaDataLoop line rest
           (if length line = 0 \<or> startsWith (name item) line then
              (case completions obj of
                 Some cs \<Rightarrow> completionsLoop line obj cs result
               | None \<Rightarrow> result @ [item\<lparr>text' := Some (slice (name item) (length line))\<rparr>])
            else result))"

definition getMetaData ::
  "MetaData list \<Rightarrow> string \<Rightarrow> bool \<Rightarrow> HttpCompletionItem list" where
  "getMetaData knownMetaData textLine isInRequestLine =
     (if startsWith (trim textLine) ''#'' \<and> \<not> isInRequestLine then
        (let line = trim (slice (trim textLine) 1)
         in knownMetaDataLoop line knownMetaData [])
      else [])"

definition toHttpCompletionItem :: "HttpRegion \<Rightarrow> HttpCompletionItem" where
  "toHttpCompletionItem httpRegion =
     \<lparr>name = orElse (metaData httpRegion ''name'') '''',
      description = ''httpRegion name'', text' = None, kind = Reference\<rparr>"

definition getRefName :: "string \<Rightarrow> HttpFile option \<Rightarrow> HttpCompletionItem list" where
  "getRefName line httpFile =
     (case httpFile of
        Some file \<Rightarrow>
          (if startsWith line ''#'' \<and> indexOf (toLowerCase line) ''ref'' \<ge> 0 then
             map toHttpCompletionItem
               (filter (\<lambda>obj. truthy (metaData obj ''name'')) (httpRegions file))
           else [])
      | None \<Rightarrow> [])"

text \<open>The method \<open>isInRequestLine\<close>; it stands after the functions that take a
  parameter of the same name.\<close>

definition isInRequestLine :: "HttpRegion \<Rightarrow> int \<Rightarrow> bool" where
  "isInRequestLine httpRegion line =
     (case children (symbol httpRegion) of
        Some cs \<Rightarrow>
          (case find (\<lambda>obj. startLine obj = line - 1) cs of
             Some preLine \<Rightarrow>
               symbolKind preLine = requestLine \<or> symbolKind preLine = requestHeader
           | None \<Rightarrow> False)
      | None \<Rightarrow> False)"

text \<open>The closing \<open>map\<close> of \<open>provideCompletionItems\<close>.\<close>

definition toCompletionItem :: "HttpCompletionItem \<Rightarrow> CompletionItem" where
  "toCompletionItem obj =
     \<lparr>label = name obj, itemKind = kind obj, detail = description obj,
      documentation = description obj, insertText = orElse (text' obj) (name obj)\<rparr>"

text \<open>The region under the cursor, \<open>httpFile && httpFile.httpRegions.find(...)\<close>:
  the first region of the file whose symbol spans the cursor line, if there is a
  file. Then the flag \<open>!!httpRegion && this.isInRequestLine(httpRegion, position.line)\<close>,
  the header context of the cursor line.\<close>

definition findHttpRegion :: "HttpFile option \<Rightarrow> int \<Rightarrow> HttpRegion option" where
  "findHttpRegion httpFile line =
     (case httpFile of
        Some file \<Rightarrow>
          find (\<lambda>obj. startLine (symbol obj) \<le> line \<and> line \<le> endLine (symbol obj))
            (httpRegions file)
      | None \<Rightarrow> None)"

definition headerContext :: "HttpFile option \<Rightarrow> int \<Rightarrow> bool" where
  "headerContext httpFile line =
     (case findHttpRegion httpFile line of
        Some httpRegion \<Rightarrow> isInRequestLine httpRegion line
      | None \<Rightarrow> False)"

text \<open>\<open>provideCompletionItems\<close>. \<open>lineText\<close> is the text of the cursor line up to the
  cursor, \<open>document.getText(new vscode.Range(line, 0, line, character))\<close>; \<open>line\<close> is
  \<open>position.line\<close>; \<open>httpFile\<close> is what the document store returns for the document,
  \<open>None\<close> when it has no model of it.\<close>

definition provideCompletionItems ::
  "MetaData list \<Rightarrow> (string \<times> string) list \<Rightarrow> string \<Rightarrow> int \<Rightarrow> HttpFile option
     \<Rightarrow> CompletionItem list" where
  "provideCompletionItems knownMetaData types lineText line httpFile =
     (let textLine = trim lineText;
          httpRegion = findHttpRegion httpFile line;
          inRequestLine = headerContext httpFile line;
          result = [];
          result = result @ getRequstMethodCompletionItems textLine;
          result = result @ getRequestHeaders textLine inRequestLine httpRegion;
          result = result @ getMimetypes types textLine inRequestLine;
          result = result @ getAuthorization textLine inRequestLine;
          result = result @ getMetaData knownMetaData textLine inRequestLine;
          result = result @ getRefName textLine httpFile
      in map toCompletionItem result)"

section \<open>Statements of the specification\<close>

text \<open>The prefix filter as the specification words it: the candidates of \<open>S\<close> whose
  name, compared case-insensitively, starts with the typed prefix \<open>p\<close>.\<close>

definition spec_filter :: "HttpCompletionItem list \<Rightarrow> string \<Rightarrow> HttpCompletionItem list" where
  "spec_filter S p = filter (\<lambda>obj. prefix (toLowerCase p) (toLowerCase (name obj))) S"

text \<open>Header context as the specification words it: the cursor line lies inside some
  region, and that region's symbol has a child that starts on the preceding line and
  is a request line or a request header.\<close>

definition spec_headerContext :: "HttpFile option \<Rightarrow> int \<Rightarrow> bool" where
  "spec_headerContext httpFile line =
     (case httpFile of
        None \<Rightarrow> False
      | Some file \<Rightarrow>
          list_ex (\<lambda>r. startLine (symbol r) \<le> line \<and> line \<le> endLine (symbol r) \<and>
              (case children (symbol r) of
                 None \<Rightarrow> False
               | Some cs \<Rightarrow>
                   list_ex (\<lambda>c. startLine c = line - 1 \<and>
                       (symbolKind c = requestLine \<or> symbolKind c = requestHeader)) cs))
            (httpRegions file))"

section \<open>Auxiliary facts\<close>

subsection \<open>Evaluating strings\<close>

lemma char_of_nat_eval:
  "char_of (n::nat) = Char (odd n) (odd (n div 2)) (odd (n div 4)) (odd (n div 8))
     (odd (n div 16)) (odd (n div 32)) (odd (n div 64)) (odd (n div 128))"
  by (simp add: char_of_def bit_iff_odd)

lemmas str_eval = startsWith_def toLowerCase_def toLowerChar_def char_of_nat_eval
  trim_def isWhiteSpace_def slice_def

lemma trim_Nil: "trim [] = []"
  by (simp add: trim_def)

lemma trim_trim: "trim (trim s) = trim s"
proof -
  define t where "t = dropWhile isWhiteSpace s"
  define u where "u = dropWhile isWhiteSpace (rev t)"
  have 1: "dropWhile isWhiteSpace u = u"
    by (simp add: u_def)
  have 2: "dropWhile isWhiteSpace (rev u) = rev u"
  proof (cases "u = []")
    case True
    then show ?thesis by simp
  next
    case False
    have "rev t = takeWhile isWhiteSpace (rev t) @ u"
      by (simp add: u_def)
    then have "t = rev u @ rev (takeWhile isWhiteSpace (rev t))"
      by (metis rev_append rev_rev_ident)
    with False have "hd (rev u) = hd t"
      by (metis hd_append2 rev_is_Nil_conv)
    moreover have "t \<noteq> []"
      using False u_def by auto
    then have "\<not> isWhiteSpace (hd t)"
      unfolding t_def by (rule hd_dropWhile)
    ultimately show ?thesis
      by (simp add: dropWhile_eq_self_iff)
  qed
  have "trim (rev u) = rev u"
    by (simp add: trim_def 1 2)
  moreover have "trim s = rev u"
    by (simp add: trim_def t_def u_def)
  ultimately show ?thesis by simp
qed

text \<open>\<open>indexOf\<close> finds an occurrence exactly when there is one.\<close>

lemma indexOf_nonneg_iff: "indexOf s p \<ge> 0 \<longleftrightarrow> (\<exists>a b. s = a @ p @ b)"
proof (induction s)
  case Nil
  then show ?case by auto
next
  case (Cons c cs)
  show ?case
  proof (cases "prefix p (c # cs)")
    case True
    then obtain b where "c # cs = p @ b" by (auto simp: prefix_def)
    then have "c # cs = [] @ p @ b" by simp
    with True show ?thesis by (metis indexOf.simps(2) order_refl)
  next
    case False
    have "(\<exists>a b. c # cs = a @ p @ b) \<longleftrightarrow> (\<exists>a b. cs = a @ p @ b)"
    proof
      assume "\<exists>a b. c # cs = a @ p @ b"
      then obtain a b where ab: "c # cs = a @ p @ b" by blast
      show "\<exists>a b. cs = a @ p @ b"
      proof (cases a)
        case Nil
        with ab have "prefix p (c # cs)" by (simp add: prefix_def)
        with False show ?thesis by simp
      next
        case (Cons x a')
        with ab have "cs = a' @ p @ b" by simp
        then show ?thesis by blast
      qed
    next
      assume "\<exists>a b. cs = a @ p @ b"
      then obtain a b where "cs = a @ p @ b" by blast
      then have "c # cs = (c # a) @ p @ b" by simp
      then show "\<exists>a b. c # cs = a @ p @ b" by blast
    qed
    with False Cons show ?thesis by (auto simp: Let_def)
  qed
qed

subsection \<open>The names of the tables\<close>

lemma requestMethodItems_names:
  "map name requestMethodItems =
     [''GET'', ''HEAD'', ''POST'', ''PUT'', ''DELETE'', ''CONNECT'', ''OPTIONS'', ''TRACE'',
      ''PATCH'', ''MQTT'', ''WSS'', ''SSE'', ''GRPC'']"
  by (simp add: requestMethodItems_def)

lemma httpHeaderItems_names:
  "map name httpHeaderItems =
     [''A-IM'', ''Accept'', ''Accept-Charset'', ''Accept-Datetime'', ''Accept-Encoding'',
      ''Accept-Language'', ''Access-Control-Request-Method'',
      ''Access-Control-Request-Headers'', ''Authorization'', ''Cache-Control'',
      ''Connection'', ''Content-Encoding'', ''Content-Length'', ''Content-MD5'',
      ''Content-Type'', ''Cookie'', ''Date'', ''Expect'', ''Forwarded'', ''From'', ''Host'',
      ''HTTP2-Settings'', ''If-Match'', ''If-Modified-Since'', ''If-None-Match'',
      ''If-Range'', ''If-Unmodified-Since'', ''Max-Forwards'', ''Origin'', ''Pragma'',
      ''Proxy-Authorization'', ''Range'', ''Referer'', ''TE'', ''Trailer'',
      ''Transfer-Encoding'', ''User-Agent'', ''Upgrade'', ''Via'', ''Warning'',
      ''Upgrade-Insecure-Requests'', ''X-Requested-With'', ''DNT'', ''X-Forwarded-For'',
      ''X-Forwarded-Host'', ''X-Forwarded-Proto'', ''Front-End-Https'',
      ''X-Http-Method-Override'', ''X-ATT-DeviceId'', ''X-Wap-Profile'',
      ''Proxy-Connection'', ''X-UIDH'', ''X-Csrf-Token'', ''X-Request-ID'',
      ''X-Correlation-ID'', ''Save-Data'']"
  by (simp add: httpHeaderItems_def)

lemma mqttHeaderItems_names:
  "map name mqttHeaderItems =
     [''username'', ''password'', ''clean'', ''keepalive'', ''QoS'', ''retain'', ''subscribe'',
      ''publish'', ''topic'']"
  by (simp add: mqttHeaderItems_def)

lemma eventSourceHeaderItems_names: "map name eventSourceHeaderItems = [''Event'']"
  by (simp add: eventSourceHeaderItems_def)

lemma grpcHeaderItems_names: "map name grpcHeaderItems = [''ChannelCredentials'']"
  by (simp add: grpcHeaderItems_def)

lemma authorizationItems_names:
  "map name authorizationItems = [''Basic'', ''Digest'', ''AWS'', ''OAuth2'', ''OpenId'', ''Bearer'']"
  by (simp add: authorizationItems_def)

text \<open>A filter that looks at the name only can be decided on the list of names.\<close>

lemma filter_by_name_Nil:
  "filter (\<lambda>obj. Q (name obj)) xs = [] \<longleftrightarrow> filter Q (map name xs) = []"
  by (induction xs) auto

lemma map_name_filter:
  "map name (filter (\<lambda>obj. Q (name obj)) xs) = filter Q (map name xs)"
  by (induction xs) auto

subsection \<open>The streams\<close>

lemma getRequstMethodCompletionItems_Nil:
  "getRequstMethodCompletionItems [] = requestMethodItems"
  by (simp add: getRequstMethodCompletionItems_def)

lemma label_toCompletionItem: "map label (map toCompletionItem xs) = map name xs"
  by (simp add: toCompletionItem_def)

text \<open>The header stream is the specification's filter, applied to the table that the
  same call returns for the empty line.\<close>

lemma getRequestHeaders_spec_filter:
  "getRequestHeaders textLine ctx httpRegion =
     spec_filter (getRequestHeaders [] ctx httpRegion) (trim textLine)"
proof (cases "textLine = []")
  case True
  then show ?thesis
    by (simp add: getRequestHeaders_def spec_filter_def trim_Nil toLowerCase_def
        split: option.splits)
next
  case False
  then show ?thesis
    by (simp add: getRequestHeaders_def spec_filter_def startsWith_def split: option.splits)
qed

text \<open>The loops of \<open>getMetaData\<close> as list comprehensions.\<close>

lemma completionsLoop_eq:
  "completionsLoop line obj cs result =
     result @ map (\<lambda>c. \<lparr>name = ''@'' @ metaName obj @ '' '' @ c,
                         description = metaDescription obj,
                         text' = Some (drop (length line) (''@'' @ metaName obj @ '' '' @ c)),
                         kind = Field\<rparr>) cs"
  by (induction cs arbitrary: result) (simp_all add: slice_def)

lemma knownMetaDataLoop_eq:
  "knownMetaDataLoop line known result =
     result @ concat (map (\<lambda>obj.
       if line = [] \<or> prefix line (''@'' @ metaName obj) then
         (case completions obj of
            Some cs \<Rightarrow>
              map (\<lambda>c. \<lparr>name = ''@'' @ metaName obj @ '' '' @ c,
                        description = metaDescription obj,
                        text' = Some (drop (length line) (''@'' @ metaName obj @ '' '' @ c)),
                        kind = Field\<rparr>) cs
          | None \<Rightarrow>
              [\<lparr>name = ''@'' @ metaName obj, description = metaDescription obj,
                text' = Some (drop (length line) (''@'' @ metaName obj)), kind = Field\<rparr>])
       else []) known)"
  by (induction known arbitrary: result)
    (simp_all add: Let_def completionsLoop_eq startsWith_def slice_def split: option.splits)

subsection \<open>Lines that start with a hash\<close>

lemma toLowerCase_hash: "toLowerCase (CHR ''#'' # rest) = CHR ''#'' # toLowerCase rest"
  by (simp add: toLowerCase_def toLowerChar_def)

lemma getRequstMethodCompletionItems_hash:
  "getRequstMethodCompletionItems (CHR ''#'' # rest) = []"
  by (simp add: getRequstMethodCompletionItems_def requestMethodItems_def startsWith_def
      toLowerCase_def toLowerChar_def char_of_nat_eval)

lemma httpHeaderItems_hash:
  "filter (\<lambda>obj. prefix (CHR ''#'' # rest) (toLowerCase (name obj))) httpHeaderItems = []"
  using filter_by_name_Nil [of "\<lambda>n. prefix (CHR ''#'' # rest) (toLowerCase n)" httpHeaderItems]
  by (simp add: httpHeaderItems_names toLowerCase_def toLowerChar_def char_of_nat_eval)

lemma mqttHeaderItems_hash:
  "filter (\<lambda>obj. prefix (CHR ''#'' # rest) (toLowerCase (name obj))) mqttHeaderItems = []"
  using filter_by_name_Nil [of "\<lambda>n. prefix (CHR ''#'' # rest) (toLowerCase n)" mqttHeaderItems]
  by (simp add: mqttHeaderItems_names toLowerCase_def toLowerChar_def char_of_nat_eval)

lemma eventSourceHeaderItems_hash:
  "filter (\<lambda>obj. prefix (CHR ''#'' # rest) (toLowerCase (name obj)))
     eventSourceHeaderItems = []"
  using filter_by_name_Nil [of "\<lambda>n. prefix (CHR ''#'' # rest) (toLowerCase n)"
      eventSourceHeaderItems]
  by (simp add: eventSourceHeaderItems_names toLowerCase_def toLowerChar_def char_of_nat_eval)

lemma grpcHeaderItems_hash:
  "filter (\<lambda>obj. prefix (CHR ''#'' # rest) (toLowerCase (name obj))) grpcHeaderItems = []"
  using filter_by_name_Nil [of "\<lambda>n. prefix (CHR ''#'' # rest) (toLowerCase n)" grpcHeaderItems]
  by (simp add: grpcHeaderItems_names toLowerCase_def toLowerChar_def char_of_nat_eval)

lemma getRequestHeaders_hash:
  assumes "startsWith (trim textLine) ''#''"
  shows "getRequestHeaders textLine ctx httpRegion = []"
proof -
  from assms obtain rest where rest: "trim textLine = CHR ''#'' # rest"
    by (auto simp: startsWith_def prefix_def)
  then have "textLine \<noteq> []"
    by (auto simp: trim_Nil)
  then show ?thesis
    by (simp add: getRequestHeaders_def rest toLowerCase_hash startsWith_def
        httpHeaderItems_hash mqttHeaderItems_hash eventSourceHeaderItems_hash
        grpcHeaderItems_hash split: option.splits)
qed

subsection \<open>The region under the cursor\<close>

lemma findHttpRegion_Some_iff:
  "findHttpRegion httpFile line = Some r \<longleftrightarrow>
     (\<exists>file i. httpFile = Some file \<and> i < length (httpRegions file) \<and>
        r = httpRegions file ! i \<and>
        startLine (symbol r) \<le> line \<and> line \<le> endLine (symbol r) \<and>
        (\<forall>j<i. \<not> (startLine (symbol (httpRegions file ! j)) \<le> line \<and>
                   line \<le> endLine (symbol (httpRegions file ! j)))))"
  by (cases httpFile) (auto simp: findHttpRegion_def find_Some_iff)

lemma isInRequestLine_iff:
  "isInRequestLine r line \<longleftrightarrow>
     (\<exists>cs k. children (symbol r) = Some cs \<and> k < length cs \<and>
        startLine (cs ! k) = line - 1 \<and> (\<forall>m<k. startLine (cs ! m) \<noteq> line - 1) \<and>
        (symbolKind (cs ! k) = requestLine \<or> symbolKind (cs ! k) = requestHeader))"
proof (cases "children (symbol r)")
  case None
  then show ?thesis by (simp add: isInRequestLine_def)
next
  case (Some cs)
  show ?thesis
  proof (cases "find (\<lambda>obj. startLine obj = line - 1) cs")
    case None
    then have "\<And>k. k < length cs \<Longrightarrow> startLine (cs ! k) \<noteq> line - 1"
      by (auto simp: find_None_iff)
    with None Some show ?thesis
      by (auto simp: isInRequestLine_def)
  next
    case found: (Some preLine)
    then obtain k where k: "k < length cs" "startLine (cs ! k) = line - 1"
      "preLine = cs ! k" "\<forall>m<k. startLine (cs ! m) \<noteq> line - 1"
      by (auto simp: find_Some_iff)
    have unique: "k' = k"
      if "k' < length cs" "startLine (cs ! k') = line - 1"
        "\<forall>m<k'. startLine (cs ! m) \<noteq> line - 1" for k'
      using that k by (meson linorder_neqE_nat)
    show ?thesis
    proof
      assume "isInRequestLine r line"
      with Some found k show "\<exists>cs k. children (symbol r) = Some cs \<and> k < length cs \<and>
        startLine (cs ! k) = line - 1 \<and> (\<forall>m<k. startLine (cs ! m) \<noteq> line - 1) \<and>
        (symbolKind (cs ! k) = requestLine \<or> symbolKind (cs ! k) = requestHeader)"
        by (auto simp: isInRequestLine_def)
    next
      assume "\<exists>cs k. children (symbol r) = Some cs \<and> k < length cs \<and>
        startLine (cs ! k) = line - 1 \<and> (\<forall>m<k. startLine (cs ! m) \<noteq> line - 1) \<and>
        (symbolKind (cs ! k) = requestLine \<or> symbolKind (cs ! k) = requestHeader)"
      then obtain k' where k': "k' < length cs" "startLine (cs ! k') = line - 1"
        "\<forall>m<k'. startLine (cs ! m) \<noteq> line - 1"
        "symbolKind (cs ! k') = requestLine \<or> symbolKind (cs ! k') = requestHeader"
        using Some by auto
      then have "k' = k" using unique [of k'] by blast
      with k' Some found k show "isInRequestLine r line"
        by (simp add: isInRequestLine_def)
    qed
  qed
qed

lemma reference_items:
  "map toHttpCompletionItem (filter (\<lambda>obj. truthy (metaData obj ''name'')) rs) =
     concat (map (\<lambda>r. case metaData r ''name'' of
         None \<Rightarrow> []
       | Some n \<Rightarrow>
           if n = [] then []
           else [\<lparr>name = n, description = ''httpRegion name'', text' = None,
                   kind = Reference\<rparr>]) rs)"
  by (induction rs)
    (auto simp: toHttpCompletionItem_def truthy_def orElse_def split: option.splits)

section \<open>The claims\<close>

text \<open>
  C1. The prefix filter returns the candidates whose name starts with the typed prefix
  under case-insensitive comparison, for the method-keyword stream as for the
  header-field stream. The header stream does (\<open>getRequestHeaders_spec_filter\<close>); the
  method stream lower-cases the name only and compares it with the text as typed, so
  for the typed text \<open>GET\<close> it returns nothing, where the filter of the specification
  keeps the keyword \<open>GET\<close>.
\<close>

theorem C1_method_stream_misses_upper_case:
  "getRequstMethodCompletionItems ''GET'' = [] \<and>
   map name (spec_filter requestMethodItems ''GET'') = [''GET'']"
  by (simp add: getRequstMethodCompletionItems_def spec_filter_def requestMethodItems_def
      startsWith_def toLowerCase_def toLowerChar_def char_of_nat_eval)


text \<open>
  C2 (as stated). For the line \<open>#ref\<close> the directive completions whose name starts
  with \<open>@ref\<close> are returned, and a candidate is kept exactly when the typed remainder
  after the \<open>#\<close> is a prefix of its full name. Neither holds: the remainder \<open>ref\<close>
  is compared with \<open>@ref\<close>, which does not start with it, and the remainder
  \<open>@ref f\<close>, a prefix of the full name \<open>@ref foo\<close>, is compared with \<open>@ref\<close> only.
\<close>

theorem C2_counterexample:
  "getMetaData [\<lparr>metaName = ''ref'', metaDescription = ''reference'',
                  completions = Some [''foo'']\<rparr>] ''#ref'' False = [] \<and>
   prefix ''@ref f'' (''@'' @ ''ref'' @ '' '' @ ''foo'') \<and>
   getMetaData [\<lparr>metaName = ''ref'', metaDescription = ''reference'',
                  completions = Some [''foo'']\<rparr>] ''#@ref f'' False = []"
  by (simp add: getMetaData_def str_eval)

text \<open>
  C2 (amended). For a line whose trimmed text begins with \<open>#\<close> and that is not in
  header context, let the typed remainder be the trimmed text after the \<open>#\<close>. The
  candidates are those of the known directives, in table order, for which the
  remainder is empty or a case-sensitive prefix of \<open>@<directive>\<close>; such a directive
  with sub-completions yields one candidate per sub-completion, named
  \<open>@<directive> <subcompletion>\<close>, and one without yields the candidate
  \<open>@<directive>\<close>. The insertion text of each candidate is its name without its first
  \<open>length remainder\<close> characters, so the remainder followed by the insertion text is
  the name.
\<close>

theorem C2_meta_directive_candidates:
  assumes "startsWith (trim textLine) ''#''"
  shows "(let typed = trim (drop 1 (trim textLine)) in
     getMetaData knownMetaData textLine False =
       concat (map (\<lambda>obj.
         if typed = [] \<or> prefix typed (''@'' @ metaName obj) then
           (case completions obj of
              Some cs \<Rightarrow>
                map (\<lambda>c. \<lparr>name = ''@'' @ metaName obj @ '' '' @ c,
                          description = metaDescription obj,
                          text' = Some (drop (length typed) (''@'' @ metaName obj @ '' '' @ c)),
                          kind = Field\<rparr>) cs
            | None \<Rightarrow>
                [\<lparr>name = ''@'' @ metaName obj, description = metaDescription obj,
                  text' = Some (drop (length typed) (''@'' @ metaName obj)), kind = Field\<rparr>])
         else []) knownMetaData) \<and>
     (\<forall>item \<in> set (getMetaData knownMetaData textLine False).
        \<exists>t. text' item = Some t \<and> name item = typed @ t))"
proof -
  define typed where "typed = trim (drop 1 (trim textLine))"
  have eq: "getMetaData knownMetaData textLine False =
      knownMetaDataLoop typed knownMetaData []"
    using assms by (simp add: getMetaData_def typed_def slice_def)
  have suffix: "\<exists>t. text' item = Some t \<and> name item = typed @ t"
    if "item \<in> set (knownMetaDataLoop typed knownMetaData [])" for item
  proof -
    from that obtain obj where obj: "obj \<in> set knownMetaData"
      and ok: "typed = [] \<or> prefix typed (''@'' @ metaName obj)"
      and item: "(\<exists>cs. completions obj = Some cs \<and>
          (\<exists>c \<in> set cs. item = \<lparr>name = ''@'' @ metaName obj @ '' '' @ c,
              description = metaDescription obj,
              text' = Some (drop (length typed) (''@'' @ metaName obj @ '' '' @ c)),
              kind = Field\<rparr>)) \<or>
        item = \<lparr>name = ''@'' @ metaName obj, description = metaDescription obj,
            text' = Some (drop (length typed) (''@'' @ metaName obj)), kind = Field\<rparr>"
      by (auto simp: knownMetaDataLoop_eq split: if_splits option.splits)
    from ok have pre: "prefix typed (''@'' @ metaName obj)"
      by auto
    then obtain r where r: "''@'' @ metaName obj = typed @ r"
      by (auto simp: prefix_def)
    from item show ?thesis
    proof
      assume "\<exists>cs. completions obj = Some cs \<and>
          (\<exists>c \<in> set cs. item = \<lparr>name = ''@'' @ metaName obj @ '' '' @ c,
              description = metaDescription obj,
              text' = Some (drop (length typed) (''@'' @ metaName obj @ '' '' @ c)),
              kind = Field\<rparr>)"
      then obtain c where c: "item = \<lparr>name = ''@'' @ metaName obj @ '' '' @ c,
              description = metaDescription obj,
              text' = Some (drop (length typed) (''@'' @ metaName obj @ '' '' @ c)),
              kind = Field\<rparr>"
        by blast
      have "''@'' @ metaName obj @ '' '' @ c = typed @ (r @ '' '' @ c)"
        using r by simp
      then have "drop (length typed) (''@'' @ metaName obj @ '' '' @ c) = r @ '' '' @ c"
        by (metis append_eq_conv_conj)
      with c r show ?thesis
        by (metis HttpCompletionItem.select_convs(1,3) \<open>''@'' @ metaName obj @ '' '' @ c = typed @ r @ '' '' @ c\<close>)
    next
      assume i: "item = \<lparr>name = ''@'' @ metaName obj, description = metaDescription obj,
            text' = Some (drop (length typed) (''@'' @ metaName obj)), kind = Field\<rparr>"
      have "drop (length typed) (''@'' @ metaName obj) = r"
        using r by (metis append_eq_conv_conj)
      with i r show ?thesis
        by (metis HttpCompletionItem.select_convs(1,3))
    qed
  qed
  show ?thesis
    unfolding Let_def typed_def [symmetric] eq
    using suffix by (simp add: knownMetaDataLoop_eq)
qed

theorem C2_meta_directive_candidates_witness:
  "startsWith (trim ''# @re'') ''#'' \<and>
   getMetaData [\<lparr>metaName = ''name'', metaDescription = ''name of the region'',
                  completions = None\<rparr>,
                \<lparr>metaName = ''ref'', metaDescription = ''reference'',
                  completions = Some [''foo'', ''bar'']\<rparr>] ''# @re'' False =
     [\<lparr>name = ''@ref foo'', description = ''reference'', text' = Some ''f foo'',
        kind = Field\<rparr>,
      \<lparr>name = ''@ref bar'', description = ''reference'', text' = Some ''f bar'',
        kind = Field\<rparr>]"
  using C2_meta_directive_candidates [where textLine = "''# @re''" and knownMetaData =
      "[\<lparr>metaName = ''name'', metaDescription = ''name of the region'', completions = None\<rparr>,
        \<lparr>metaName = ''ref'', metaDescription = ''reference'',
          completions = Some [''foo'', ''bar'']\<rparr>]"]
  by (simp add: Let_def str_eval)

text \<open>
  C3. In header context the header-field candidates are chosen by the request variant
  of the enclosing region alone: the HTTP table of 56 fields for an HTTP request, the
  nine broker-session fields for an MQTT request, the field \<open>Event\<close> for an
  EventSource request, the field \<open>ChannelCredentials\<close> for a gRPC request, and nothing
  for another variant or for a region without request. The prefix filter then selects
  from that one table.
\<close>

theorem C3_header_table_by_variant:
  "getRequestHeaders textLine True (Some httpRegion) =
     filter (\<lambda>obj. textLine = [] \<or>
         prefix (toLowerCase (trim textLine)) (toLowerCase (name obj)))
       (case request httpRegion of
          Some HttpRequest \<Rightarrow> httpHeaderItems
        | Some MQTTRequest \<Rightarrow> mqttHeaderItems
        | Some EventSourceRequest \<Rightarrow> eventSourceHeaderItems
        | Some GrpcRequest \<Rightarrow> grpcHeaderItems
        | Some WebsocketRequest \<Rightarrow> []
        | None \<Rightarrow> []) \<and>
   getRequestHeaders [] True (Some (httpRegion\<lparr>request := Some HttpRequest\<rparr>)) =
     httpHeaderItems \<and>
   getRequestHeaders [] True (Some (httpRegion\<lparr>request := Some MQTTRequest\<rparr>)) =
     mqttHeaderItems \<and>
   getRequestHeaders [] True (Some (httpRegion\<lparr>request := Some EventSourceRequest\<rparr>)) =
     eventSourceHeaderItems \<and>
   getRequestHeaders [] True (Some (httpRegion\<lparr>request := Some GrpcRequest\<rparr>)) =
     grpcHeaderItems \<and>
   getRequestHeaders [] True (Some (httpRegion\<lparr>request := Some WebsocketRequest\<rparr>)) = [] \<and>
   getRequestHeaders [] True (Some (httpRegion\<lparr>request := None\<rparr>)) = [] \<and>
   length httpHeaderItems = 56 \<and>
   map name mqttHeaderItems =
     [''username'', ''password'', ''clean'', ''keepalive'', ''QoS'', ''retain'', ''subscribe'',
     ''publish'', ''topic''] \<and>
   map name eventSourceHeaderItems = [''Event''] \<and>
   map name grpcHeaderItems = [''ChannelCredentials'']"
proof -
  have len: "length (map name httpHeaderItems) = 56"
    unfolding httpHeaderItems_names by simp
  have tables: "getRequestHeaders textLine True (Some httpRegion) =
     filter (\<lambda>obj. textLine = [] \<or>
         prefix (toLowerCase (trim textLine)) (toLowerCase (name obj)))
       (case request httpRegion of
          Some HttpRequest \<Rightarrow> httpHeaderItems
        | Some MQTTRequest \<Rightarrow> mqttHeaderItems
        | Some EventSourceRequest \<Rightarrow> eventSourceHeaderItems
        | Some GrpcRequest \<Rightarrow> grpcHeaderItems
        | Some WebsocketRequest \<Rightarrow> []
        | None \<Rightarrow> [])" for textLine httpRegion
    by (simp add: getRequestHeaders_def startsWith_def isHttpRequest_def isMQTTRequest_def
        isEventSourceRequest_def isGrpcRequest_def split: option.splits Request.splits)
  show ?thesis
    using len by (simp add: tables mqttHeaderItems_names eventSourceHeaderItems_names
        grpcHeaderItems_names)
qed

theorem C3_header_table_by_variant_witness:
  "map name (getRequestHeaders ''con'' True
     (Some \<lparr>symbol = HttpSymbol 0 5 otherSymbolKind None, request = Some HttpRequest,
        metaData = Map.empty\<rparr>)) =
     [''Connection'', ''Content-Encoding'', ''Content-Length'', ''Content-MD5'',
      ''Content-Type''] \<and>
   map name (getRequestHeaders ''Q'' True
     (Some \<lparr>symbol = HttpSymbol 0 5 otherSymbolKind None, request = Some MQTTRequest,
        metaData = Map.empty\<rparr>)) = [''QoS'']"
proof -
  let ?http = "\<lparr>symbol = HttpSymbol 0 5 otherSymbolKind None, request = Some HttpRequest,
        metaData = Map.empty\<rparr>"
  let ?mqtt = "\<lparr>symbol = HttpSymbol 0 5 otherSymbolKind None, request = Some MQTTRequest,
        metaData = Map.empty\<rparr>"
  have "getRequestHeaders ''con'' True (Some ?http) =
      filter (\<lambda>obj. prefix ''con'' (toLowerCase (name obj))) httpHeaderItems"
    using C3_header_table_by_variant [where textLine = "''con''" and httpRegion = ?http]
    by (simp add: str_eval)
  then have 1: "map name (getRequestHeaders ''con'' True (Some ?http)) =
      [''Connection'', ''Content-Encoding'', ''Content-Length'', ''Content-MD5'',
       ''Content-Type'']"
    using map_name_filter [of "\<lambda>n. prefix ''con'' (toLowerCase n)" httpHeaderItems]
    by (simp add: httpHeaderItems_names toLowerCase_def toLowerChar_def char_of_nat_eval)
  have "getRequestHeaders ''Q'' True (Some ?mqtt) =
      filter (\<lambda>obj. prefix ''q'' (toLowerCase (name obj))) mqttHeaderItems"
    using C3_header_table_by_variant [where textLine = "''Q''" and httpRegion = ?mqtt]
    by (simp add: str_eval)
  then have 2: "map name (getRequestHeaders ''Q'' True (Some ?mqtt)) = [''QoS'']"
    using map_name_filter [of "\<lambda>n. prefix ''q'' (toLowerCase n)" mqttHeaderItems]
    by (simp add: mqttHeaderItems_names toLowerCase_def toLowerChar_def char_of_nat_eval)
  from 1 2 show ?thesis by simp
qed

text \<open>
  C4. The returned candidates are the method-keyword candidates, then the header-field
  candidates, then the mime-type candidates, then the authorization-scheme
  candidates, then the meta-directive candidates, then the reference candidates, each
  stream computed from the trimmed line, the header context of the cursor line and
  the region under the cursor.
\<close>

theorem C4_stream_order:
  "provideCompletionItems knownMetaData types lineText line httpFile =
     map toCompletionItem (getRequstMethodCompletionItems (trim lineText)) @
     map toCompletionItem (getRequestHeaders (trim lineText) (headerContext httpFile line)
       (findHttpRegion httpFile line)) @
     map toCompletionItem (getMimetypes types (trim lineText) (headerContext httpFile line)) @
     map toCompletionItem (getAuthorization (trim lineText) (headerContext httpFile line)) @
     map toCompletionItem
       (getMetaData knownMetaData (trim lineText) (headerContext httpFile line)) @
     map toCompletionItem (getRefName (trim lineText) httpFile)"
  by (simp add: provideCompletionItems_def Let_def)

text \<open>
  C5. When the line up to the cursor is empty after trimming and there is no document
  model, the result is the method table: the thirteen candidates GET, HEAD, POST, PUT,
  DELETE, CONNECT, OPTIONS, TRACE, PATCH, MQTT, WSS, SSE, GRPC in this order, and
  nothing from another stream. The model is a total function: no path of the source
  throws.
\<close>

theorem C5_empty_line_without_model:
  assumes "trim lineText = []"
  shows "provideCompletionItems knownMetaData types lineText line None =
           map toCompletionItem requestMethodItems \<and>
         map label (provideCompletionItems knownMetaData types lineText line None) =
           [''GET'', ''HEAD'', ''POST'', ''PUT'', ''DELETE'', ''CONNECT'', ''OPTIONS'', ''TRACE'',
           ''PATCH'', ''MQTT'', ''WSS'', ''SSE'', ''GRPC''] \<and>
         length (provideCompletionItems knownMetaData types lineText line None) = 13"
proof -
  have all: "provideCompletionItems knownMetaData types lineText line None =
      map toCompletionItem requestMethodItems"
    using assms
    by (simp add: provideCompletionItems_def Let_def getRequstMethodCompletionItems_Nil
        findHttpRegion_def headerContext_def getRequestHeaders_def getMimetypes_def
        getAuthorization_def getMetaData_def getRefName_def trim_Nil startsWith_def)
  have names: "map label (map toCompletionItem requestMethodItems) =
      map name requestMethodItems"
    by (rule label_toCompletionItem)
  have "length (map name requestMethodItems) = 13"
    unfolding requestMethodItems_names by simp
  then have len: "length (map toCompletionItem requestMethodItems) = 13"
    by simp
  show ?thesis
    unfolding all names requestMethodItems_names using len by simp
qed

theorem C5_empty_line_without_model_witness:
  "trim [CHR '' '', CHR 0x09, CHR '' ''] = [] \<and>
   map label (provideCompletionItems [] [] [CHR '' '', CHR 0x09, CHR '' ''] 0 None) =
     [''GET'', ''HEAD'', ''POST'', ''PUT'', ''DELETE'', ''CONNECT'', ''OPTIONS'', ''TRACE'',
           ''PATCH'', ''MQTT'', ''WSS'', ''SSE'', ''GRPC'']"
proof -
  have blank: "trim [CHR '' '', CHR 0x09, CHR '' ''] = []"
    by (simp add: trim_def isWhiteSpace_def)
  from blank C5_empty_line_without_model [OF blank, where knownMetaData = "[]"
      and types = "[]" and line = 0]
  show ?thesis by blast
qed

text \<open>
  C6. On a line that starts with \<open>#\<close> and contains \<open>ref\<close> in any letter case, with a
  document model present, the reference stream has one candidate of kind
  \<open>Reference\<close> for each region of the file whose name is present and not empty, in
  region order, named after the region and described by the fixed label
  \<open>httpRegion name\<close>; a region without name contributes nothing, and equal names are
  not merged.
\<close>

theorem C6_reference_candidates:
  assumes "startsWith line ''#''" and "toLowerCase line = a @ ''ref'' @ b"
  shows "getRefName line (Some file) =
     concat (map (\<lambda>r. case metaData r ''name'' of
         None \<Rightarrow> []
       | Some n \<Rightarrow>
           if n = [] then []
           else [\<lparr>name = n, description = ''httpRegion name'', text' = None,
                   kind = Reference\<rparr>]) (httpRegions file))"
proof -
  have "indexOf (toLowerCase line) ''ref'' \<ge> 0"
    using assms(2) indexOf_nonneg_iff by blast
  with assms(1) show ?thesis
    by (simp add: getRefName_def reference_items)
qed

theorem C6_reference_candidates_witness:
  "startsWith ''# ref foo'' ''#'' \<and>
   toLowerCase ''# ref foo'' = ''# '' @ ''ref'' @ '' foo'' \<and>
   getRefName ''# ref foo''
     (Some \<lparr>httpRegions =
        [\<lparr>symbol = HttpSymbol 0 3 otherSymbolKind None, request = None,
           metaData = [''name'' \<mapsto> ''foo'']\<rparr>,
         \<lparr>symbol = HttpSymbol 4 7 otherSymbolKind None, request = None,
           metaData = Map.empty\<rparr>,
         \<lparr>symbol = HttpSymbol 8 9 otherSymbolKind None, request = None,
           metaData = [''name'' \<mapsto> ''foo'']\<rparr>]\<rparr>) =
     [\<lparr>name = ''foo'', description = ''httpRegion name'', text' = None, kind = Reference\<rparr>,
      \<lparr>name = ''foo'', description = ''httpRegion name'', text' = None, kind = Reference\<rparr>]"
proof -
  have 1: "startsWith ''# ref foo'' ''#''"
    by (simp add: startsWith_def)
  have 2: "toLowerCase ''# ref foo'' = ''# '' @ ''ref'' @ '' foo''"
    by (simp add: toLowerCase_def toLowerChar_def char_of_nat_eval)
  show ?thesis
    using 1 2 by (simp add: C6_reference_candidates [OF 1 2])
qed

text \<open>
  C7 (as stated). Header context holds exactly when some region spans the cursor line
  and has a child symbol that starts on the preceding line and is a request line or a
  request header. The source takes the first child that starts on the preceding line
  and looks at the kind of that one only: when another symbol starts on line 1 before
  the request header does, line 2 is not in header context.
\<close>

theorem C7_counterexample:
  "spec_headerContext
     (Some \<lparr>httpRegions =
        [\<lparr>symbol = HttpSymbol 0 5 otherSymbolKind
             (Some [HttpSymbol 1 1 otherSymbolKind None, HttpSymbol 1 1 requestHeader None]),
           request = Some HttpRequest, metaData = Map.empty\<rparr>]\<rparr>) 2 \<and>
   \<not> headerContext
     (Some \<lparr>httpRegions =
        [\<lparr>symbol = HttpSymbol 0 5 otherSymbolKind
             (Some [HttpSymbol 1 1 otherSymbolKind None, HttpSymbol 1 1 requestHeader None]),
           request = Some HttpRequest, metaData = Map.empty\<rparr>]\<rparr>) 2"
  by (simp add: spec_headerContext_def headerContext_def findHttpRegion_def
      isInRequestLine_def)

text \<open>
  C7 (amended). Header context holds exactly when there is a document model, some
  region spans the cursor line, and in the first such region the first child symbol
  that starts on the line before the cursor line is a request line or a request
  header. When no region spans the cursor line (as when there is no document model),
  header context does not hold and the header, mime-type and authorization streams
  are empty.
\<close>

theorem C7_header_context_first_match:
  "(headerContext httpFile line \<longleftrightarrow>
      (\<exists>file i cs k. httpFile = Some file \<and> i < length (httpRegions file) \<and>
         startLine (symbol (httpRegions file ! i)) \<le> line \<and>
         line \<le> endLine (symbol (httpRegions file ! i)) \<and>
         (\<forall>j<i. \<not> (startLine (symbol (httpRegions file ! j)) \<le> line \<and>
                    line \<le> endLine (symbol (httpRegions file ! j)))) \<and>
         children (symbol (httpRegions file ! i)) = Some cs \<and> k < length cs \<and>
         startLine (cs ! k) = line - 1 \<and> (\<forall>m<k. startLine (cs ! m) \<noteq> line - 1) \<and>
         (symbolKind (cs ! k) = requestLine \<or> symbolKind (cs ! k) = requestHeader))) \<and>
   findHttpRegion None line = None \<and>
   (findHttpRegion httpFile line = None \<longrightarrow>
      \<not> headerContext httpFile line \<and>
      getRequestHeaders textLine (headerContext httpFile line)
        (findHttpRegion httpFile line) = [] \<and>
      getMimetypes types textLine (headerContext httpFile line) = [] \<and>
      getAuthorization textLine (headerContext httpFile line) = [])"
proof -
  have "headerContext httpFile line \<longleftrightarrow>
      (\<exists>r. findHttpRegion httpFile line = Some r \<and> isInRequestLine r line)"
    by (simp add: headerContext_def split: option.splits)
  also have "\<dots> \<longleftrightarrow>
      (\<exists>file i cs k. httpFile = Some file \<and> i < length (httpRegions file) \<and>
         startLine (symbol (httpRegions file ! i)) \<le> line \<and>
         line \<le> endLine (symbol (httpRegions file ! i)) \<and>
         (\<forall>j<i. \<not> (startLine (symbol (httpRegions file ! j)) \<le> line \<and>
                    line \<le> endLine (symbol (httpRegions file ! j)))) \<and>
         children (symbol (httpRegions file ! i)) = Some cs \<and> k < length cs \<and>
         startLine (cs ! k) = line - 1 \<and> (\<forall>m<k. startLine (cs ! m) \<noteq> line - 1) \<and>
         (symbolKind (cs ! k) = requestLine \<or> symbolKind (cs ! k) = requestHeader))"
    unfolding findHttpRegion_Some_iff isInRequestLine_iff by blast
  finally have first: "headerContext httpFile line \<longleftrightarrow>
      (\<exists>file i cs k. httpFile = Some file \<and> i < length (httpRegions file) \<and>
         startLine (symbol (httpRegions file ! i)) \<le> line \<and>
         line \<le> endLine (symbol (httpRegions file ! i)) \<and>
         (\<forall>j<i. \<not> (startLine (symbol (httpRegions file ! j)) \<le> line \<and>
                    line \<le> endLine (symbol (httpRegions file ! j)))) \<and>
         children (symbol (httpRegions file ! i)) = Some cs \<and> k < length cs \<and>
         startLine (cs ! k) = line - 1 \<and> (\<forall>m<k. startLine (cs ! m) \<noteq> line - 1) \<and>
         (symbolKind (cs ! k) = requestLine \<or> symbolKind (cs ! k) = requestHeader))" .
  have none: "findHttpRegion None line = None"
    by (simp add: findHttpRegion_def)
  have outside: "\<not> headerContext httpFile line \<and>
      getRequestHeaders textLine (headerContext httpFile line)
        (findHttpRegion httpFile line) = [] \<and>
      getMimetypes types textLine (headerContext httpFile line) = [] \<and>
      getAuthorization textLine (headerContext httpFile line) = []"
    if "findHttpRegion httpFile line = None"
    using that
    by (simp add: headerContext_def getRequestHeaders_def getMimetypes_def
        getAuthorization_def)
  from first none outside show ?thesis by blast
qed

theorem C7_header_context_first_match_witness:
  "headerContext
     (Some \<lparr>httpRegions =
        [\<lparr>symbol = HttpSymbol 0 5 otherSymbolKind
             (Some [HttpSymbol 0 0 otherSymbolKind None, HttpSymbol 1 1 requestLine None]),
           request = Some HttpRequest, metaData = Map.empty\<rparr>]\<rparr>) 2 \<and>
   findHttpRegion
     (Some \<lparr>httpRegions =
        [\<lparr>symbol = HttpSymbol 0 5 otherSymbolKind
             (Some [HttpSymbol 0 0 otherSymbolKind None, HttpSymbol 1 1 requestLine None]),
           request = Some HttpRequest, metaData = Map.empty\<rparr>]\<rparr>) 9 = None \<and>
   getAuthorization ''Authorization: ''
     (headerContext
        (Some \<lparr>httpRegions =
           [\<lparr>symbol = HttpSymbol 0 5 otherSymbolKind
                (Some [HttpSymbol 0 0 otherSymbolKind None, HttpSymbol 1 1 requestLine None]),
              request = Some HttpRequest, metaData = Map.empty\<rparr>]\<rparr>) 9) = []"
proof -
  let ?file = "\<lparr>httpRegions =
        [\<lparr>symbol = HttpSymbol 0 5 otherSymbolKind
             (Some [HttpSymbol 0 0 otherSymbolKind None, HttpSymbol 1 1 requestLine None]),
           request = Some HttpRequest, metaData = Map.empty\<rparr>]\<rparr>"
  let ?cs = "[HttpSymbol 0 0 otherSymbolKind None, HttpSymbol 1 1 requestLine None]"
  note inst = C7_header_context_first_match [where httpFile = "Some ?file"
      and textLine = "''Authorization: ''" and types = "[]"]
  have "\<exists>file i cs k. Some ?file = Some file \<and> i < length (httpRegions file) \<and>
         startLine (symbol (httpRegions file ! i)) \<le> 2 \<and>
         2 \<le> endLine (symbol (httpRegions file ! i)) \<and>
         (\<forall>j<i. \<not> (startLine (symbol (httpRegions file ! j)) \<le> 2 \<and>
                    2 \<le> endLine (symbol (httpRegions file ! j)))) \<and>
         children (symbol (httpRegions file ! i)) = Some cs \<and> k < length cs \<and>
         startLine (cs ! k) = 2 - 1 \<and> (\<forall>m<k. startLine (cs ! m) \<noteq> 2 - 1) \<and>
         (symbolKind (cs ! k) = requestLine \<or> symbolKind (cs ! k) = requestHeader)"
    by (rule exI [of _ ?file], rule exI [of _ 0], rule exI [of _ ?cs], rule exI [of _ 1])
      simp
  then have inside: "headerContext (Some ?file) 2"
    using inst [where line = 2] by blast
  have outside: "findHttpRegion (Some ?file) 9 = None"
    by (simp add: findHttpRegion_def)
  then have "getAuthorization ''Authorization: '' (headerContext (Some ?file) 9) = []"
    using inst [where line = 9] by blast
  with inside outside show ?thesis by blast
qed

text \<open>
  C8 (as stated). Every returned mime-type, authorization or reference candidate has a
  name that matches the typed line case-insensitively. On the line \<open># ref\<close> of a
  document with a region named \<open>foo\<close> the provider returns the reference candidate
  \<open>foo\<close>, whose name does not start with the typed text.
\<close>

theorem C8_counterexample:
  "map label (provideCompletionItems [] [] ''# ref'' 0
     (Some \<lparr>httpRegions =
        [\<lparr>symbol = HttpSymbol 0 3 otherSymbolKind None, request = None,
           metaData = [''name'' \<mapsto> ''foo'']\<rparr>]\<rparr>)) = [''foo''] \<and>
   \<not> prefix (toLowerCase ''# ref'') (toLowerCase ''foo'')"
  by (simp add: provideCompletionItems_def Let_def getRequstMethodCompletionItems_hash
      headerContext_def findHttpRegion_def isInRequestLine_def getRequestHeaders_def
      getMimetypes_def getAuthorization_def getMetaData_def getRefName_def
      toHttpCompletionItem_def toCompletionItem_def truthy_def orElse_def str_eval)

text \<open>
  C8 (amended). The mime-type, authorization-scheme and reference streams are returned
  without prefix filtering: whenever the context condition of the stream holds (header
  context and \<open>content-type\<close> in the line; header context and \<open>authorization\<close> in the
  line; a document model and a line that starts with \<open>#\<close> and contains \<open>ref\<close>), the
  stream holds every entry of its table, whatever the typed line is.
\<close>

theorem C8_unfiltered_streams:
  "((\<exists>a b. toLowerCase line = a @ ''content-type'' @ b) \<longrightarrow>
      map name (getMimetypes types line True) =
        map snd types @ [''application/x-www-form-urlencoded'']) \<and>
   ((\<exists>a b. toLowerCase line = a @ ''authorization'' @ b) \<longrightarrow>
      getAuthorization line True = authorizationItems \<and>
      map name (getAuthorization line True) =
        [''Basic'', ''Digest'', ''AWS'', ''OAuth2'', ''OpenId'', ''Bearer'']) \<and>
   (startsWith line ''#'' \<and> (\<exists>a b. toLowerCase line = a @ ''ref'' @ b) \<longrightarrow>
      map name (getRefName line (Some file)) =
        filter (\<lambda>n. n \<noteq> [])
          (map (\<lambda>r. case metaData r ''name'' of Some n \<Rightarrow> n | None \<Rightarrow> [])
             (httpRegions file)))"
proof -
  have mime: "map name (getMimetypes types line True) =
      map snd types @ [''application/x-www-form-urlencoded'']"
    if "\<exists>a b. toLowerCase line = a @ ''content-type'' @ b"
  proof -
    from that have "indexOf (toLowerCase line) ''content-type'' \<ge> 0"
      by (simp only: indexOf_nonneg_iff)
    moreover have "map (name \<circ> (\<lambda>(key, value).
        \<lparr>name = value, description = key, text' = None, kind = Value\<rparr>)) types = map snd types"
      by (rule map_cong) auto
    ultimately show ?thesis
      by (simp add: getMimetypes_def)
  qed
  have auth: "getAuthorization line True = authorizationItems \<and>
      map name (getAuthorization line True) =
        [''Basic'', ''Digest'', ''AWS'', ''OAuth2'', ''OpenId'', ''Bearer'']"
    if "\<exists>a b. toLowerCase line = a @ ''authorization'' @ b"
  proof -
    from that have "indexOf (toLowerCase line) ''authorization'' \<ge> 0"
      by (simp only: indexOf_nonneg_iff)
    then show ?thesis
      by (simp add: getAuthorization_def authorizationItems_names)
  qed
  have names: "map name (map toHttpCompletionItem
        (filter (\<lambda>obj. truthy (metaData obj ''name'')) rs)) =
      filter (\<lambda>n. n \<noteq> [])
        (map (\<lambda>r. case metaData r ''name'' of Some n \<Rightarrow> n | None \<Rightarrow> []) rs)" for rs
    by (induction rs)
      (auto simp: toHttpCompletionItem_def truthy_def orElse_def split: option.splits)
  have ref: "map name (getRefName line (Some file)) =
        filter (\<lambda>n. n \<noteq> [])
          (map (\<lambda>r. case metaData r ''name'' of Some n \<Rightarrow> n | None \<Rightarrow> [])
             (httpRegions file))"
    if "startsWith line ''#'' \<and> (\<exists>a b. toLowerCase line = a @ ''ref'' @ b)"
  proof -
    from that have "indexOf (toLowerCase line) ''ref'' \<ge> 0"
      by (simp only: indexOf_nonneg_iff)
    with that show ?thesis
      by (simp add: getRefName_def names del: map_map)
  qed
  from mime auth ref show ?thesis by blast
qed

theorem C8_unfiltered_streams_witness:
  "toLowerCase ''Authorization: Ba'' = [] @ ''authorization'' @ '': ba'' \<and>
   map name (getAuthorization ''Authorization: Ba'' True) =
     [''Basic'', ''Digest'', ''AWS'', ''OAuth2'', ''OpenId'', ''Bearer'']"
proof -
  have sub: "toLowerCase ''Authorization: Ba'' = [] @ ''authorization'' @ '': ba''"
    by (simp add: toLowerCase_def toLowerChar_def char_of_nat_eval)
  then have "\<exists>a b. toLowerCase ''Authorization: Ba'' = a @ ''authorization'' @ b"
    by blast
  with C8_unfiltered_streams [where line = "''Authorization: Ba''"]
  have "map name (getAuthorization ''Authorization: Ba'' True) =
     [''Basic'', ''Digest'', ''AWS'', ''OAuth2'', ''OpenId'', ''Bearer'']"
    by blast
  with sub show ?thesis by blast
qed

text \<open>
  C9. On a line in header context that contains \<open>content-type\<close> in any letter case,
  the mime-type stream has one candidate for each entry of the registered mapping from
  extension to content type, named by the content type and described by the
  extension, followed by one more candidate named
  \<open>application/x-www-form-urlencoded\<close>, which is there whatever the mapping holds.
\<close>

theorem C9_mime_type_candidates:
  assumes "toLowerCase line = a @ ''content-type'' @ b"
  shows "getMimetypes types line True =
           map (\<lambda>(key, value).
             \<lparr>name = value, description = key, text' = None, kind = Value\<rparr>) types @
           [\<lparr>name = ''application/x-www-form-urlencoded'',
             description = ''application/x-www-form-urlencoded'',
             text' = None, kind = Value\<rparr>] \<and>
         length (getMimetypes types line True) = length types + 1 \<and>
         ''application/x-www-form-urlencoded'' \<in> set (map name (getMimetypes types line True))"
proof -
  have "indexOf (toLowerCase line) ''content-type'' \<ge> 0"
    using assms indexOf_nonneg_iff by blast
  then show ?thesis
    by (simp add: getMimetypes_def)
qed

theorem C9_mime_type_candidates_witness:
  "toLowerCase ''Content-Type: '' = [] @ ''content-type'' @ '': '' \<and>
   getMimetypes [(''json'', ''application/json''), (''txt'', ''text/plain'')]
       ''Content-Type: '' True =
     [\<lparr>name = ''application/json'', description = ''json'', text' = None, kind = Value\<rparr>,
      \<lparr>name = ''text/plain'', description = ''txt'', text' = None, kind = Value\<rparr>,
      \<lparr>name = ''application/x-www-form-urlencoded'',
        description = ''application/x-www-form-urlencoded'', text' = None, kind = Value\<rparr>] \<and>
   map name (getMimetypes [] ''Content-Type: '' True) = [''application/x-www-form-urlencoded'']"
proof -
  have sub: "toLowerCase ''Content-Type: '' = [] @ ''content-type'' @ '': ''"
    by (simp add: toLowerCase_def toLowerChar_def char_of_nat_eval)
  show ?thesis
    using sub
      C9_mime_type_candidates [OF sub, where types =
        "[(''json'', ''application/json''), (''txt'', ''text/plain'')]"]
      C9_mime_type_candidates [OF sub, where types = "[]"]
    by simp
qed

text \<open>
  C10 (as stated). On a line whose trimmed text begins with \<open>#\<close> the output comes from
  the meta-directive and reference streams only. In header context it does not: on
  the line \<open>#authorization\<close> below a request line the provider returns the six
  authorization schemes, and the meta-directive and reference streams are empty.
\<close>

theorem C10_counterexample:
  "map label (provideCompletionItems
     [\<lparr>metaName = ''name'', metaDescription = ''name of the region'', completions = None\<rparr>]
     [] ''#authorization'' 1
     (Some \<lparr>httpRegions =
        [\<lparr>symbol = HttpSymbol 0 5 otherSymbolKind (Some [HttpSymbol 0 0 requestLine None]),
           request = Some HttpRequest, metaData = Map.empty\<rparr>]\<rparr>)) =
     [''Basic'', ''Digest'', ''AWS'', ''OAuth2'', ''OpenId'', ''Bearer''] \<and>
   getMetaData
     [\<lparr>metaName = ''name'', metaDescription = ''name of the region'', completions = None\<rparr>]
     ''#authorization'' True = [] \<and>
   getRefName ''#authorization''
     (Some \<lparr>httpRegions =
        [\<lparr>symbol = HttpSymbol 0 5 otherSymbolKind (Some [HttpSymbol 0 0 requestLine None]),
           request = Some HttpRequest, metaData = Map.empty\<rparr>]\<rparr>) = []"
proof -
  have ctx: "headerContext
     (Some \<lparr>httpRegions =
        [\<lparr>symbol = HttpSymbol 0 5 otherSymbolKind (Some [HttpSymbol 0 0 requestLine None]),
           request = Some HttpRequest, metaData = Map.empty\<rparr>]\<rparr>) 1"
    by (simp add: headerContext_def findHttpRegion_def isInRequestLine_def)
  have line: "trim ''#authorization'' = ''#authorization''"
    by (simp add: trim_def isWhiteSpace_def)
  have auth: "getAuthorization ''#authorization'' True = authorizationItems"
    by (simp add: getAuthorization_def toLowerCase_def toLowerChar_def char_of_nat_eval)
  have mime: "getMimetypes [] ''#authorization'' True = []"
    by (simp add: getMimetypes_def toLowerCase_def toLowerChar_def char_of_nat_eval)
  have meta: "getMetaData
     [\<lparr>metaName = ''name'', metaDescription = ''name of the region'', completions = None\<rparr>]
     ''#authorization'' True = []"
    by (simp add: getMetaData_def)
  have ref: "getRefName ''#authorization''
     (Some \<lparr>httpRegions =
        [\<lparr>symbol = HttpSymbol 0 5 otherSymbolKind (Some [HttpSymbol 0 0 requestLine None]),
           request = Some HttpRequest, metaData = Map.empty\<rparr>]\<rparr>) = []"
    by (simp add: getRefName_def toLowerCase_def toLowerChar_def char_of_nat_eval)
  have hdr: "getRequestHeaders ''#authorization'' ctx' r = []" for ctx' r
    by (rule getRequestHeaders_hash) (simp add: line startsWith_def)
  have out: "provideCompletionItems
     [\<lparr>metaName = ''name'', metaDescription = ''name of the region'', completions = None\<rparr>]
     [] ''#authorization'' 1
     (Some \<lparr>httpRegions =
        [\<lparr>symbol = HttpSymbol 0 5 otherSymbolKind (Some [HttpSymbol 0 0 requestLine None]),
           request = Some HttpRequest, metaData = Map.empty\<rparr>]\<rparr>) =
     map toCompletionItem authorizationItems"
    by (simp add: provideCompletionItems_def Let_def line ctx auth mime meta ref hdr
        getRequstMethodCompletionItems_hash)
  show ?thesis
    unfolding out label_toCompletionItem authorizationItems_names
    using meta ref by simp
qed

text \<open>
  C10 (amended). On a line whose trimmed text begins with \<open>#\<close> the method-keyword
  stream and the header-field stream are empty, since no name of their tables starts
  with \<open>#\<close>. Outside header context the output is the meta-directive candidates
  followed by the reference candidates; in header context it is the mime-type, the
  authorization-scheme and the reference candidates.
\<close>

theorem C10_comment_line_streams:
  assumes "startsWith (trim lineText) ''#''"
  shows "getRequstMethodCompletionItems (trim lineText) = [] \<and>
         getRequestHeaders (trim lineText) (headerContext httpFile line)
           (findHttpRegion httpFile line) = [] \<and>
         provideCompletionItems knownMetaData types lineText line httpFile =
           (if headerContext httpFile line then
              map toCompletionItem
                (getMimetypes types (trim lineText) True @
                 getAuthorization (trim lineText) True @
                 getRefName (trim lineText) httpFile)
            else
              map toCompletionItem
                (getMetaData knownMetaData (trim lineText) False @
                 getRefName (trim lineText) httpFile))"
proof -
  from assms obtain rest where rest: "trim lineText = CHR ''#'' # rest"
    by (auto simp: startsWith_def prefix_def)
  have methods: "getRequstMethodCompletionItems (trim lineText) = []"
    by (simp add: rest getRequstMethodCompletionItems_hash)
  have "startsWith (trim (trim lineText)) ''#''"
    using assms by (simp add: trim_trim)
  then have headers: "getRequestHeaders (trim lineText) ctx r = []" for ctx r
    by (rule getRequestHeaders_hash)
  have inside: "getMetaData knownMetaData (trim lineText) True = []"
    by (simp add: getMetaData_def)
  have outside: "getMimetypes types (trim lineText) False = []"
      "getAuthorization (trim lineText) False = []"
    by (simp_all add: getMimetypes_def getAuthorization_def)
  show ?thesis
    by (simp add: provideCompletionItems_def Let_def methods headers inside outside)
qed

theorem C10_comment_line_streams_witness:
  "startsWith (trim '' # @na'') ''#'' \<and>
   provideCompletionItems
     [\<lparr>metaName = ''name'', metaDescription = ''name of the region'', completions = None\<rparr>]
     [] '' # @na'' 0 None =
     [\<lparr>label = ''@name'', itemKind = Field, detail = ''name of the region'',
        documentation = ''name of the region'', insertText = ''me''\<rparr>]"
  using C10_comment_line_streams [where lineText = "'' # @na''" and line = 0
      and httpFile = None and types = "[]" and knownMetaData =
      "[\<lparr>metaName = ''name'', metaDescription = ''name of the region'', completions = None\<rparr>]"]
  by (simp add: headerContext_def findHttpRegion_def getMetaData_def getRefName_def
      toCompletionItem_def orElse_def str_eval)

end
